theory Spec2Isabelle
  imports Main
begin

section \<open>Values held in a Go interface\<close>

text \<open>
  The package passes message, dynamic and static fields as \<^verbatim>\<open>interface{}\<close> values.
  \<open>VNil\<close> is the nil interface. \<open>VInt\<close> is a Go \<^verbatim>\<open>int\<close> (only printed, never
  computed with, so its width plays no role), \<open>VStrs\<close> a \<^verbatim>\<open>[]string\<close>, \<open>VSlice\<close> a
  \<^verbatim>\<open>[]interface{}\<close>, and \<open>VOther r\<close> a value of any other type whose \<^verbatim>\<open>%+v\<close>
  rendering is \<open>r\<close>.
\<close>

datatype val =
    VNil
  | VInt int
  | VBool bool
  | VStr string
  | VStrs "string list"
  | VSlice "val list"
  | VOther string

subsection \<open>Formatting (the fragment of fmt.Sprintf that stringify uses)\<close>

definition digit :: "nat \<Rightarrow> char" where
  "digit n = ''0123456789'' ! n"

function decimal :: "nat \<Rightarrow> string" where
  "decimal n = (if n < 10 then [digit n] else decimal (n div 10) @ [digit (n mod 10)])"
  by pat_completeness auto
termination
  by (relation "measure (\<lambda>n. n)") auto

declare decimal.simps [simp del]

definition Sprintf_d :: "int \<Rightarrow> string" where
  "Sprintf_d i = (if i < 0 then ''-'' @ decimal (nat (- i)) else decimal (nat i))"

definition Sprintf_t :: "bool \<Rightarrow> string" where
  "Sprintf_t b = (if b then ''true'' else ''false'')"

fun join_sp :: "string list \<Rightarrow> string" where
  "join_sp [] = []"
| "join_sp [x] = x"
| "join_sp (x # y # r) = x @ '' '' @ join_sp (y # r)"

fun Sprintf_v :: "val \<Rightarrow> string" where
  "Sprintf_v VNil = ''<nil>''"
| "Sprintf_v (VInt i) = Sprintf_d i"
| "Sprintf_v (VBool b) = Sprintf_t b"
| "Sprintf_v (VStr s) = s"
| "Sprintf_v (VStrs ss) = ''['' @ join_sp ss @ '']''"
| "Sprintf_v (VSlice vs) = ''['' @ join_sp (map Sprintf_v vs) @ '']''"
| "Sprintf_v (VOther r) = r"

text \<open>\<^verbatim>\<open>stringify\<close> of log.go: a type switch with a default branch.\<close>

definition stringify :: "val \<Rightarrow> string" where
  "stringify v =
     (case v of
        VNil \<Rightarrow> Sprintf_v VNil
      | VInt i \<Rightarrow> Sprintf_d i
      | VBool b \<Rightarrow> Sprintf_t b
      | VStr s \<Rightarrow> s
      | _ \<Rightarrow> Sprintf_v v)"

section \<open>The level constants of const.go\<close>

text \<open>
  The constants are declared in one \<^verbatim>\<open>const ( ... )\<close> block. In Go, \<^verbatim>\<open>iota\<close> is the
  index of the constant specification inside its block, counted from zero, and a
  specification without an expression repeats the previous one. \<^verbatim>\<open>Disabled = -1\<close> is
  specification 0, \<^verbatim>\<open>Debug = iota\<close> is specification 1, and \<^verbatim>\<open>Info\<close>, \<^verbatim>\<open>Warn\<close>,
  \<^verbatim>\<open>Error\<close> repeat \<^verbatim>\<open>iota\<close> at specifications 2, 3 and 4.
\<close>

definition iota :: "nat \<Rightarrow> int" where
  "iota k = int k"

definition Disabled :: int where
  "Disabled = - 1"

definition Debug :: int where
  "Debug = iota 1"

definition Info :: int where
  "Info = iota 2"

definition Warn :: int where
  "Warn = iota 3"

definition Error :: int where
  "Error = iota 4"

section \<open>The zerolog collaborator\<close>

text \<open>
  zerolog is an external library; only the part of its interface that log.go calls is
  modelled. A \<^verbatim>\<open>zerolog.Logger\<close> is a value holding its writer, its output format and
  its minimum level. \<^verbatim>\<open>Logger.Level(lvl)\<close> has a value receiver and returns a child
  logger with the minimum level set; it does not change the logger it is called on.
  \<^verbatim>\<open>Logger.Info()\<close> and \<^verbatim>\<open>Logger.Error()\<close> return a nil event when the logger's minimum
  level excludes the event's level, and every event method is a no-op on a nil event.
  Timestamps are not modelled.
\<close>

datatype writer = Stdout | Stderr

datatype zlevel = DebugLevel | InfoLevel | WarnLevel | ErrorLevel | zerolog_Disabled

fun zrank :: "zlevel \<Rightarrow> nat" where
  "zrank DebugLevel = 0"
| "zrank InfoLevel = 1"
| "zrank WarnLevel = 2"
| "zrank ErrorLevel = 3"
| "zrank zerolog_Disabled = 7"

record zlogger =
  zw :: writer
  zconsole :: bool
  zminlevel :: zlevel

text \<open>\<^verbatim>\<open>zerolog.New(w).With().Timestamp().Logger()\<close>: a JSON logger that filters nothing.\<close>

definition zerolog_New :: "writer \<Rightarrow> zlogger" where
  "zerolog_New w = \<lparr>zw = w, zconsole = False, zminlevel = DebugLevel\<rparr>"

text \<open>\<^verbatim>\<open>log.Output(zerolog.ConsoleWriter{Out: w})\<close>: a copy of zerolog's global logger
  writing to the console writer.\<close>

definition log_Output :: "writer \<Rightarrow> zlogger" where
  "log_Output w = \<lparr>zw = w, zconsole = True, zminlevel = DebugLevel\<rparr>"

definition zl_Level :: "zlogger \<Rightarrow> zlevel \<Rightarrow> zlogger" where
  "zl_Level l lvl = l\<lparr>zminlevel := lvl\<rparr>"

text \<open>An event under construction, and the record it becomes when \<^verbatim>\<open>Msg\<close> writes it.
  A Go \<^verbatim>\<open>error\<close> is \<open>None\<close> (nil) or \<open>Some\<close> of its message.\<close>

record event =
  e_level :: zlevel
  e_writer :: writer
  e_console :: bool
  e_str :: "(string \<times> string) list"
  e_fields :: "string \<rightharpoonup> val"
  e_err :: "string option"
  e_message :: string

definition newEvent :: "zlogger \<Rightarrow> zlevel \<Rightarrow> event option" where
  "newEvent l lvl =
     (if zrank lvl < zrank (zminlevel l) then None
      else Some \<lparr>e_level = lvl, e_writer = zw l, e_console = zconsole l, e_str = [],
                  e_fields = Map.empty, e_err = None, e_message = []\<rparr>)"

definition zl_Info :: "zlogger \<Rightarrow> event option" where
  "zl_Info l = newEvent l InfoLevel"

definition zl_Error :: "zlogger \<Rightarrow> event option" where
  "zl_Error l = newEvent l ErrorLevel"

definition ev_Str :: "string \<Rightarrow> string \<Rightarrow> event option \<Rightarrow> event option" where
  "ev_Str k v le = map_option (\<lambda>e. e\<lparr>e_str := e_str e @ [(k, v)]\<rparr>) le"

definition ev_Fields :: "(string \<rightharpoonup> val) \<Rightarrow> event option \<Rightarrow> event option" where
  "ev_Fields fs le = map_option (\<lambda>e. e\<lparr>e_fields := fs\<rparr>) le"

definition ev_Err :: "string option \<Rightarrow> event option \<Rightarrow> event option" where
  "ev_Err err le = map_option (\<lambda>e. e\<lparr>e_err := err\<rparr>) le"

section \<open>Package state\<close>

record Logger =
  Level :: int
  Version :: string
  Revision :: string
  StdLog :: zlogger
  ErrLog :: zlogger
  dynafields :: "val list"

record config =
  name :: string
  level :: int
  stfields :: "val list"
  configured :: bool

text \<open>
  A \<^verbatim>\<open>*Logger\<close> is an address into \<open>heap\<close>; \<open>nxt\<close> is the next unused address, so
  every address below \<open>nxt\<close> has been allocated. A nil pointer is \<open>None\<close>. \<open>out\<close> lists
  the records handed to the writers, oldest first.
\<close>

record state =
  cfg :: config
  Default :: "nat option"
  heap :: "nat \<Rightarrow> Logger"
  nxt :: nat
  out :: "event list"

definition alloc :: "Logger \<Rightarrow> state \<Rightarrow> nat \<times> state" where
  "alloc l s = (nxt s, s\<lparr>heap := (heap s)(nxt s := l), nxt := Suc (nxt s)\<rparr>)"

definition ev_Msg :: "event option \<Rightarrow> string \<Rightarrow> state \<Rightarrow> state" where
  "ev_Msg le message s =
     (case le of
        None \<Rightarrow> s
      | Some e \<Rightarrow> s\<lparr>out := out s @ [e\<lparr>e_message := message\<rparr>]\<rparr>)"

section \<open>Construction and the one-time global configuration\<close>

text \<open>
  \<^verbatim>\<open>setLogLevel\<close> receives a pointer to a zerolog logger; the model returns the pointee
  as it is when the function returns. Every branch calls \<^verbatim>\<open>l.Level(...)\<close> as a statement
  and drops the child logger it returns.
\<close>

definition setLogLevel :: "zlogger \<Rightarrow> int \<Rightarrow> zlogger" where
  "setLogLevel l lv =
     (let dropped =
        (if lv = - 1 then zl_Level l zerolog_Disabled
         else if lv = 0 then zl_Level l DebugLevel
         else if lv = 1 then zl_Level l InfoLevel
         else if lv = 2 then zl_Level l WarnLevel
         else if lv = 3 then zl_Level l ErrorLevel
         else zl_Level l DebugLevel)
      in l)"

text \<open>\<^verbatim>\<open>setup\<close> of the package (renamed: the name is reserved here).\<close>

definition cfg_setup :: "string \<Rightarrow> val list \<Rightarrow> state \<Rightarrow> state" where
  "cfg_setup nm stf s =
     (if configured (cfg s) then s
      else s\<lparr>cfg := (cfg s)\<lparr>name := nm, stfields := stfields (cfg s) @ stf,
                             configured := True\<rparr>\<rparr>)"

definition NewLogger :: "int \<Rightarrow> string \<Rightarrow> val list \<Rightarrow> state \<Rightarrow> nat \<times> state" where
  "NewLogger lv0 nm stf s =
     (let lv = (if lv0 < Disabled \<or> lv0 > Error then Info else lv0);
          stdl = zerolog_New Stdout;
          errl = zerolog_New Stderr;
          stdl' = setLogLevel stdl lv;
          errl' = setLogLevel errl lv;
          (l, s1) = alloc \<lparr>Level = lv, Version = [], Revision = [], StdLog = stdl',
                            ErrLog = errl', dynafields = []\<rparr> s
      in if length stf > 1 \<and> \<not> configured (cfg s1)
         then (l, (cfg_setup nm stf s1)\<lparr>Default := Some l\<rparr>)
         else (l, s1))"

definition NewDevLogger :: "int \<Rightarrow> string \<Rightarrow> val list \<Rightarrow> state \<Rightarrow> nat \<times> state" where
  "NewDevLogger lv0 nm stf s =
     (let lv = (if lv0 < Disabled \<or> lv0 > Error then Info else lv0);
          stdl = log_Output Stdout;
          errl = log_Output Stderr;
          stdl' = setLogLevel stdl lv;
          errl' = setLogLevel errl lv;
          (l, s1) = alloc \<lparr>Level = lv, Version = [], Revision = [], StdLog = stdl',
                            ErrLog = errl', dynafields = []\<rparr> s
      in if length stf > 1 \<and> \<not> configured (cfg s1)
         then (l, (cfg_setup nm stf s1)\<lparr>Default := Some l\<rparr>)
         else (l, s1))"

text \<open>The package function \<^verbatim>\<open>Set\<close> and the method \<^verbatim>\<open>(*Logger).Set\<close>.\<close>

definition Set_Default :: "nat option \<Rightarrow> state \<Rightarrow> state" where
  "Set_Default l s = s\<lparr>Default := l\<rparr>"

definition Logger_Set :: "nat \<Rightarrow> state \<Rightarrow> nat option \<times> state" where
  "Logger_Set l s = (let s' = s\<lparr>Default := Some l\<rparr> in (Default s', s'))"

text \<open>The state before \<^verbatim>\<open>init\<close> runs (every package variable at its zero value, no
  logger allocated: \<open>zero_Logger\<close> only fills the unused cells of the heap), and
  \<^verbatim>\<open>init\<close> itself.\<close>

definition zero_zlogger :: zlogger where
  "zero_zlogger = \<lparr>zw = Stdout, zconsole = False, zminlevel = DebugLevel\<rparr>"

definition zero_Logger :: Logger where
  "zero_Logger = \<lparr>Level = 0, Version = [], Revision = [], StdLog = zero_zlogger,
                   ErrLog = zero_zlogger, dynafields = []\<rparr>"

definition zero_state :: state where
  "zero_state = \<lparr>cfg = \<lparr>name = [], level = 0, stfields = [], configured = False\<rparr>,
                  Default = None, heap = (\<lambda>a. zero_Logger), nxt = 0, out = []\<rparr>"

definition init :: "state \<Rightarrow> state" where
  "init s = (let (l, s') = NewLogger Debug ''logger'' [] s in s'\<lparr>Default := Some l\<rparr>)"

section \<open>Dynamic fields\<close>

text \<open>
  The three methods have pointer receivers and write through the pointer.
  \<^verbatim>\<open>make([]interface{}, 2)\<close> is a slice of two nil interfaces. \<^verbatim>\<open>AddDyna\<close> appends the
  slice \<^verbatim>\<open>[]interface{}{key, value}\<close> without spreading it, that is as one element.
\<close>

definition SetDyna :: "nat \<Rightarrow> val list \<Rightarrow> state \<Rightarrow> state" where
  "SetDyna l dyn s =
     s\<lparr>heap := (heap s)(l := (heap s l)\<lparr>dynafields := [VNil, VNil] @ dyn\<rparr>)\<rparr>"

definition AddDyna :: "nat \<Rightarrow> val \<Rightarrow> val \<Rightarrow> state \<Rightarrow> state" where
  "AddDyna l key v s =
     s\<lparr>heap := (heap s)(l := (heap s l)\<lparr>dynafields :=
                                 dynafields (heap s l) @ [VSlice [key, v]]\<rparr>)\<rparr>"

definition ResetDyna :: "nat \<Rightarrow> state \<Rightarrow> state" where
  "ResetDyna l s = s\<lparr>heap := (heap s)(l := (heap s l)\<lparr>dynafields := [VNil, VNil]\<rparr>)\<rparr>"

section \<open>Contexts\<close>

text \<open>
  A context is the chain of its key-value bindings, innermost first. \<open>ContextKey\<close> is the
  package's unexported key type, \<open>OtherKey\<close> a key of any other type. A stored value is a
  \<^verbatim>\<open>*Logger\<close>, a \<^verbatim>\<open>Logger\<close> or something else; the type assertions of \<^verbatim>\<open>FromCtx\<close> and
  \<^verbatim>\<open>CtxLogger\<close> tell them apart.
\<close>

datatype ckey = ContextKey string | OtherKey string

datatype cval = LoggerPtr nat | LoggerVal Logger | OtherVal val

type_synonym ctx = "(ckey \<times> cval) list"

definition loggerCtxKey :: ckey where
  "loggerCtxKey = ContextKey ''logger''"

definition ctx_Value :: "ctx \<Rightarrow> ckey \<Rightarrow> cval option" where
  "ctx_Value c k = map_of c k"

definition WithValue :: "ctx \<Rightarrow> ckey \<Rightarrow> cval \<Rightarrow> ctx" where
  "WithValue c k v = (k, v) # c"

text \<open>\<^verbatim>\<open>CtxLogger\<close> asserts \<^verbatim>\<open>*Logger\<close>; a failed assertion yields the nil pointer.\<close>

definition CtxLogger :: "ctx \<Rightarrow> nat option \<times> bool" where
  "CtxLogger c =
     (case ctx_Value c loggerCtxKey of
        Some (LoggerPtr l) \<Rightarrow> (Some l, True)
      | _ \<Rightarrow> (None, False))"

text \<open>\<^verbatim>\<open>FromCtx\<close> asserts \<^verbatim>\<open>Logger\<close>; on success it returns the address of its local
  copy. Its second result is named \<^verbatim>\<open>fresh\<close>.\<close>

definition FromCtx :: "ctx \<Rightarrow> state \<Rightarrow> nat \<times> bool \<times> state" where
  "FromCtx c s =
     (case ctx_Value c loggerCtxKey of
        Some (LoggerVal l) \<Rightarrow> (let (a, s') = alloc l s in (a, False, s'))
      | _ \<Rightarrow> (let (a, s') = NewLogger (level (cfg s)) (name (cfg s)) [] s in (a, True, s')))"

text \<open>\<^verbatim>\<open>InCtx\<close> passes its \<^verbatim>\<open>[]string\<close> to the variadic \<^verbatim>\<open>SetDyna\<close> without spreading
  it, so \<^verbatim>\<open>SetDyna\<close> receives one argument.\<close>

definition InCtx :: "ctx \<Rightarrow> string list \<Rightarrow> state \<Rightarrow> ctx \<times> state" where
  "InCtx c flds s =
     (let (l, fresh, s1) = FromCtx c s;
          s2 = (if length flds > 0 then SetDyna l [VStrs flds] s1 else s1)
      in (WithValue c loggerCtxKey (LoggerPtr l), s2))"

section \<open>Field composition\<close>

text \<open>
  The loop \<^verbatim>\<open>for i := 0; i < len(fields)-1; i++ { if ... { ...; i++ } }\<close>, entered at
  index \<open>i\<close>: a pair that is inserted advances the index by two, anything else by one.
\<close>

function appendLoop :: "nat \<Rightarrow> val list \<Rightarrow> (string \<rightharpoonup> val) \<Rightarrow> (string \<rightharpoonup> val)" where
  "appendLoop i flds fs =
     (if int i < int (length flds) - 1 then
        (if flds ! i \<noteq> VNil \<and> flds ! (i + 1) \<noteq> VNil
         then appendLoop (i + 2) flds (fs(stringify (flds ! i) \<mapsto> flds ! (i + 1)))
         else appendLoop (i + 1) flds fs)
      else fs)"
  by pat_completeness auto
termination
  by (relation "measure (\<lambda>(i, flds, fs). length flds - i)") auto

declare appendLoop.simps [simp del]

text \<open>\<^verbatim>\<open>appendKeyValues\<close> reads the package variable \<^verbatim>\<open>cfg\<close>, hence the state argument.\<close>

definition appendKeyValues ::
  "event option \<Rightarrow> val list \<Rightarrow> val list \<Rightarrow> state \<Rightarrow> event option" where
  "appendKeyValues le dyn flds s =
     (let le1 = (if name (cfg s) \<noteq> [] then ev_Str ''name'' (name (cfg s)) le else le);
          fs0 = Map.empty;
          fs =
            (if length flds > 1 then
               (let fs1 = appendLoop 0 flds fs0;
                    fs2 = (if length dyn > 1 then appendLoop 0 dyn fs1 else fs1);
                    fs3 = (if length (stfields (cfg s)) > 1
                           then appendLoop 0 (stfields (cfg s)) fs2 else fs2)
                in fs3)
             else fs0)
      in ev_Fields fs le1)"

section \<open>Severity methods\<close>

definition debugf :: "Logger \<Rightarrow> string \<Rightarrow> val list \<Rightarrow> state \<Rightarrow> state" where
  "debugf l message flds s =
     (if Level l > Debug then s
      else ev_Msg (appendKeyValues (zl_Info (StdLog l)) (dynafields l) flds s) message s)"

definition infof :: "Logger \<Rightarrow> string \<Rightarrow> val list \<Rightarrow> state \<Rightarrow> state" where
  "infof l message flds s =
     (if Level l > Info then s
      else ev_Msg (appendKeyValues (zl_Info (StdLog l)) (dynafields l) flds s) message s)"

definition warnf :: "Logger \<Rightarrow> string \<Rightarrow> val list \<Rightarrow> state \<Rightarrow> state" where
  "warnf l message flds s =
     (if Level l > Warn then s
      else ev_Msg (appendKeyValues (zl_Info (StdLog l)) (dynafields l) flds s) message s)"

definition errorf :: "Logger \<Rightarrow> string option \<Rightarrow> string \<Rightarrow> val list \<Rightarrow> state \<Rightarrow> state" where
  "errorf l err message flds s =
     ev_Msg (ev_Err err (appendKeyValues (zl_Error (ErrLog l)) (dynafields l) flds s))
       message s"

text \<open>The methods \<^verbatim>\<open>Debug\<close>, \<^verbatim>\<open>Info\<close>, \<^verbatim>\<open>Warn\<close> and \<^verbatim>\<open>Error\<close> of \<^verbatim>\<open>Logger\<close> (value
  receivers). \<^verbatim>\<open>meta[1:len(meta)]\<close> is the tail of \<^verbatim>\<open>meta\<close>.\<close>

definition Logger_Debug :: "Logger \<Rightarrow> val list \<Rightarrow> state \<Rightarrow> state" where
  "Logger_Debug l meta s =
     (if length meta > 0 then debugf l (stringify (hd meta)) (tl meta) s else s)"

definition Logger_Info :: "Logger \<Rightarrow> val list \<Rightarrow> state \<Rightarrow> state" where
  "Logger_Info l meta s =
     (if length meta > 0 then infof l (stringify (hd meta)) (tl meta) s else s)"

definition Logger_Warn :: "Logger \<Rightarrow> val list \<Rightarrow> state \<Rightarrow> state" where
  "Logger_Warn l meta s =
     (if length meta > 0 then warnf l (stringify (hd meta)) (tl meta) s else s)"

definition Logger_Error :: "Logger \<Rightarrow> string option \<Rightarrow> val list \<Rightarrow> state \<Rightarrow> state" where
  "Logger_Error l err meta s =
     (if length meta > 0 then errorf l err (stringify (hd meta)) (tl meta) s
      else errorf l err [] [] s)"

section \<open>Level update\<close>

text \<open>
  \<^verbatim>\<open>UpdateLogLevel\<close> has a value receiver: it works on its own copy of the logger. The
  model returns that copy as it is when the method returns, together with the state; Go
  drops the copy. \<open>call_UpdateLogLevel\<close> is the call \<^verbatim>\<open>p.UpdateLogLevel(lv)\<close> through a
  pointer \<open>p\<close>.
\<close>

definition UpdateLogLevel :: "Logger \<Rightarrow> int \<Rightarrow> state \<Rightarrow> Logger \<times> state" where
  "UpdateLogLevel l lv s =
     (let current = Error;
          s1 = Logger_Info l [VStr ''Log level updated'', VStr [], VStr ''log level'', VInt lv] s;
          l1 = l\<lparr>Level := current\<rparr>;
          l2 = (if lv < Disabled \<or> lv > Error
                then l1\<lparr>Level := lv, StdLog := setLogLevel (StdLog l1) lv,
                        ErrLog := setLogLevel (ErrLog l1) lv\<rparr>
                else l1)
      in (l2, s1))"

definition call_UpdateLogLevel :: "nat \<Rightarrow> int \<Rightarrow> state \<Rightarrow> state" where
  "call_UpdateLogLevel p lv s = snd (UpdateLogLevel (heap s p) lv s)"

section \<open>Derived notions used in the statements\<close>

text \<open>The package state once \<^verbatim>\<open>init\<close> has run.\<close>

definition boot :: state where
  "boot = init zero_state"

text \<open>A construction call, the call itself, and the logger value its result points to.\<close>

datatype construction =
    New int string "val list"
  | NewDev int string "val list"

fun construct :: "construction \<Rightarrow> state \<Rightarrow> nat \<times> state" where
  "construct (New lv nm stf) s = NewLogger lv nm stf s"
| "construct (NewDev lv nm stf) s = NewDevLogger lv nm stf s"

fun c_name :: "construction \<Rightarrow> string" where
  "c_name (New lv nm stf) = nm"
| "c_name (NewDev lv nm stf) = nm"

fun c_stfields :: "construction \<Rightarrow> val list" where
  "c_stfields (New lv nm stf) = stf"
| "c_stfields (NewDev lv nm stf) = stf"

fun constructs :: "construction list \<Rightarrow> state \<Rightarrow> state" where
  "constructs [] s = s"
| "constructs (c # cs) s = constructs cs (snd (construct c s))"

definition built :: "construction \<Rightarrow> state \<Rightarrow> Logger" where
  "built c s = heap (snd (construct c s)) (fst (construct c s))"

text \<open>The loop of \<open>appendLoop\<close> read over the remaining list instead of an index.\<close>

fun walk :: "val list \<Rightarrow> (string \<rightharpoonup> val) \<Rightarrow> (string \<rightharpoonup> val)" where
  "walk (k # v # rest) fs =
     (if k \<noteq> VNil \<and> v \<noteq> VNil then walk rest (fs(stringify k \<mapsto> v))
      else walk (v # rest) fs)"
| "walk [v] fs = fs"
| "walk [] fs = fs"

text \<open>A field list in which no pair has a null key and a non-null value.\<close>

fun keys_ok :: "val list \<Rightarrow> bool" where
  "keys_ok (k # v # rest) = ((if k = VNil then v = VNil else True) \<and> keys_ok rest)"
| "keys_ok [v] = True"
| "keys_ok [] = True"

subsection \<open>The reference merge of the specification\<close>

text \<open>
  Written from the specification's words, for comparison with \<open>appendKeyValues\<close>: a
  field list is read two entries at a time; a pair is inserted, under its stringified
  key, when key and value are both non-null, and dropped otherwise; message fields come
  first, then dynamic fields, then static fields, later insertions overwriting earlier
  ones.
\<close>

fun pairs_of :: "val list \<Rightarrow> (val \<times> val) list" where
  "pairs_of (k # v # rest) = (k, v) # pairs_of rest"
| "pairs_of [v] = []"
| "pairs_of [] = []"

definition insert_pair :: "val \<times> val \<Rightarrow> (string \<rightharpoonup> val) \<Rightarrow> (string \<rightharpoonup> val)" where
  "insert_pair kv m =
     (if fst kv \<noteq> VNil \<and> snd kv \<noteq> VNil then m(stringify (fst kv) \<mapsto> snd kv) else m)"

definition insert_pairs :: "val list \<Rightarrow> (string \<rightharpoonup> val) \<Rightarrow> (string \<rightharpoonup> val)" where
  "insert_pairs flds m = fold insert_pair (pairs_of flds) m"

definition reference_merge :: "val list \<Rightarrow> val list \<Rightarrow> val list \<Rightarrow> (string \<rightharpoonup> val)" where
  "reference_merge msg dyn st =
     insert_pairs st (insert_pairs dyn (insert_pairs msg Map.empty))"

section \<open>Basic facts\<close>

lemmas level_defs = Disabled_def Debug_def Info_def Warn_def Error_def iota_def

lemmas construction_defs = NewLogger_def NewDevLogger_def alloc_def cfg_setup_def
  setLogLevel_def zerolog_New_def log_Output_def zl_Level_def

lemma boot_eq:
  "boot = \<lparr>cfg = \<lparr>name = [], level = 0, stfields = [], configured = False\<rparr>,
     Default = Some 0,
     heap = (\<lambda>a. zero_Logger)(0 := \<lparr>Level = 1, Version = [], Revision = [],
       StdLog = zerolog_New Stdout, ErrLog = zerolog_New Stderr, dynafields = []\<rparr>),
     nxt = 1, out = []\<rparr>"
  by (simp add: boot_def init_def zero_state_def construction_defs level_defs Let_def)

section \<open>The level constants\<close>

text \<open>
  Claim C2. The claim gives the constants the values Disabled = -1, Debug = 0, Info = 1,
  Warn = 2, Error = 3. The constant block of const.go yields -1, 1, 2, 3, 4: \<^verbatim>\<open>iota\<close>
  has already counted the line of \<^verbatim>\<open>Disabled\<close> when \<^verbatim>\<open>Debug\<close> takes its value. The
  order Disabled < Debug < Info < Warn < Error holds.
\<close>

theorem C2_level_constants:
  "Disabled = - 1 \<and> Debug = 1 \<and> Info = 2 \<and> Warn = 3 \<and> Error = 4
   \<and> Disabled < Debug \<and> Debug < Info \<and> Info < Warn \<and> Warn < Error"
  by (simp add: level_defs)

section \<open>Construction calls\<close>

lemma construct_fst: "fst (construct c s) = nxt s"
  by (cases c) (simp_all add: construction_defs Let_def)

lemma construct_out: "out (snd (construct c s)) = out s"
  by (cases c) (simp_all add: construction_defs Let_def)

lemma construct_nxt: "nxt (snd (construct c s)) = Suc (nxt s)"
  by (cases c) (simp_all add: construction_defs Let_def)

lemma construct_cfg:
  "cfg (snd (construct c s)) =
     (if 1 < length (c_stfields c) \<and> \<not> configured (cfg s)
      then (cfg s)\<lparr>name := c_name c, stfields := stfields (cfg s) @ c_stfields c,
                    configured := True\<rparr>
      else cfg s)"
  by (cases c) (simp_all add: construction_defs Let_def)

lemma construct_Default:
  "Default (snd (construct c s)) =
     (if 1 < length (c_stfields c) \<and> \<not> configured (cfg s) then Some (nxt s) else Default s)"
  by (cases c) (simp_all add: construction_defs Let_def)

lemma built_sinks:
  "zw (StdLog (built c s)) = Stdout \<and> zw (ErrLog (built c s)) = Stderr
   \<and> zminlevel (StdLog (built c s)) = DebugLevel \<and> zminlevel (ErrLog (built c s)) = DebugLevel"
  by (cases c) (simp_all add: built_def construction_defs Let_def)

lemma built_dynafields: "dynafields (built c s) = []"
  by (cases c) (simp_all add: built_def construction_defs Let_def)

section \<open>Writer invocations\<close>

lemma appendKeyValues_Some:
  "\<exists>e'. appendKeyValues (Some e) dyn flds s = Some e' \<and> e_level e' = e_level e
     \<and> e_writer e' = e_writer e \<and> e_err e' = e_err e"
  by (simp add: appendKeyValues_def ev_Str_def ev_Fields_def Let_def)

lemma errorf_emits:
  assumes "zrank (zminlevel (ErrLog l)) \<le> 3"
  shows "\<exists>e. errorf l err message flds s = s\<lparr>out := out s @ [e]\<rparr> \<and> e_level e = ErrorLevel
     \<and> e_writer e = zw (ErrLog l) \<and> e_err e = err \<and> e_message e = message"
proof -
  from assms obtain e0 where e0: "zl_Error (ErrLog l) = Some e0" "e_level e0 = ErrorLevel"
    "e_writer e0 = zw (ErrLog l)"
    by (simp add: zl_Error_def newEvent_def)
  obtain e1 where e1: "appendKeyValues (Some e0) (dynafields l) flds s = Some e1"
    "e_level e1 = e_level e0" "e_writer e1 = e_writer e0"
    using appendKeyValues_Some by blast
  show ?thesis
    by (rule exI [of _ "e1\<lparr>e_err := err, e_message := message\<rparr>"])
       (simp add: errorf_def e0 e1 ev_Err_def ev_Msg_def)
qed

lemma logf_emits:
  assumes "zrank (zminlevel (StdLog l)) \<le> 1"
  shows "\<exists>e. ev_Msg (appendKeyValues (zl_Info (StdLog l)) (dynafields l) flds s) message s
       = s\<lparr>out := out s @ [e]\<rparr> \<and> e_level e = InfoLevel
     \<and> e_writer e = zw (StdLog l) \<and> e_message e = message"
proof -
  from assms obtain e0 where e0: "zl_Info (StdLog l) = Some e0" "e_level e0 = InfoLevel"
    "e_writer e0 = zw (StdLog l)"
    by (simp add: zl_Info_def newEvent_def)
  obtain e1 where e1: "appendKeyValues (Some e0) (dynafields l) flds s = Some e1"
    "e_level e1 = e_level e0" "e_writer e1 = e_writer e0"
    using appendKeyValues_Some by blast
  show ?thesis
    by (rule exI [of _ "e1\<lparr>e_message := message\<rparr>"]) (simp add: e0 e1 ev_Msg_def)
qed

text \<open>
  Claim C5. \<^verbatim>\<open>Error\<close> is not gated. For a logger built by \<^verbatim>\<open>NewLogger\<close> or
  \<^verbatim>\<open>NewDevLogger\<close> at any level argument, whatever its \<open>Level\<close> field and its dynamic
  fields are at the time of the call, \<^verbatim>\<open>Error(err, meta...)\<close> hands exactly one record
  to the writer and changes nothing else: the record goes to the error sink, has error
  severity, carries \<open>err\<close> in the error field, and its message is the stringified first
  argument, or the empty string when there is none.
\<close>

theorem C5_Error_always_written:
  "\<exists>e. Logger_Error ((built c s0)\<lparr>Level := cur, dynafields := dyn\<rparr>) err meta s
          = s\<lparr>out := out s @ [e]\<rparr>
      \<and> e_level e = ErrorLevel \<and> e_writer e = Stderr \<and> e_err e = err
      \<and> e_message e = (if length meta > 0 then stringify (hd meta) else [])"
proof -
  let ?l = "(built c s0)\<lparr>Level := cur, dynafields := dyn\<rparr>"
  have sink: "zrank (zminlevel (ErrLog ?l)) \<le> 3" "zw (ErrLog ?l) = Stderr"
    using built_sinks [of c s0] by simp_all
  show ?thesis
    using errorf_emits [OF sink(1), of err "stringify (hd meta)" "tl meta" s]
      errorf_emits [OF sink(1), of err "[]" "[]" s] sink(2)
    by (simp add: Logger_Error_def)
qed

theorem C5_witness:
  "\<exists>e. Logger_Error ((built (New Disabled ''svc'' []) boot)\<lparr>Level := Disabled, dynafields := []\<rparr>)
          (Some ''boom'') [] boot = boot\<lparr>out := out boot @ [e]\<rparr>
      \<and> e_level e = ErrorLevel \<and> e_writer e = Stderr \<and> e_err e = Some ''boom''
      \<and> e_message e = []"
  using C5_Error_always_written [where c = "New Disabled ''svc'' []" and ?s0.0 = boot
      and cur = Disabled and dyn = "[]" and err = "Some ''boom''" and meta = "[]" and s = boot]
  by simp

text \<open>
  Claim C9. A \<^verbatim>\<open>Debug\<close>, \<^verbatim>\<open>Info\<close> or \<^verbatim>\<open>Warn\<close> call with at least one argument that
  passes the level check of its method (\<open>Level \<le> Debug\<close>, \<open>Level \<le> Info\<close>,
  \<open>Level \<le> Warn\<close>) writes exactly one record, on the normal sink, and the record is
  built by the sink's info-level event constructor: its level is info for all three
  methods.
\<close>

theorem C9_info_constructor:
  "(length meta > 0 \<and> cur \<le> Debug \<longrightarrow>
      (\<exists>e. Logger_Debug ((built c s0)\<lparr>Level := cur, dynafields := dyn\<rparr>) meta s
              = s\<lparr>out := out s @ [e]\<rparr>
          \<and> e_level e = InfoLevel \<and> e_writer e = Stdout))
   \<and> (length meta > 0 \<and> cur \<le> Info \<longrightarrow>
      (\<exists>e. Logger_Info ((built c s0)\<lparr>Level := cur, dynafields := dyn\<rparr>) meta s
              = s\<lparr>out := out s @ [e]\<rparr>
          \<and> e_level e = InfoLevel \<and> e_writer e = Stdout))
   \<and> (length meta > 0 \<and> cur \<le> Warn \<longrightarrow>
      (\<exists>e. Logger_Warn ((built c s0)\<lparr>Level := cur, dynafields := dyn\<rparr>) meta s
              = s\<lparr>out := out s @ [e]\<rparr>
          \<and> e_level e = InfoLevel \<and> e_writer e = Stdout))"
proof -
  let ?l = "(built c s0)\<lparr>Level := cur, dynafields := dyn\<rparr>"
  have sink: "zrank (zminlevel (StdLog ?l)) \<le> 1" "zw (StdLog ?l) = Stdout"
    using built_sinks [of c s0] by simp_all
  have emit: "\<exists>e. ev_Msg (appendKeyValues (zl_Info (StdLog ?l)) (dynafields ?l) (tl meta) s)
                  (stringify (hd meta)) s = s\<lparr>out := out s @ [e]\<rparr>
              \<and> e_level e = InfoLevel \<and> e_writer e = Stdout"
    using logf_emits [OF sink(1), of "tl meta" s "stringify (hd meta)"] sink(2) by auto
  show ?thesis
    using emit by (simp add: Logger_Debug_def Logger_Info_def Logger_Warn_def debugf_def infof_def warnf_def)
qed


theorem C9_witness:
  "(\<exists>e. Logger_Debug ((built (New Debug ''svc'' []) boot)\<lparr>Level := Debug, dynafields := []\<rparr>)
            [VStr ''m''] boot = boot\<lparr>out := out boot @ [e]\<rparr>
        \<and> e_level e = InfoLevel \<and> e_writer e = Stdout)
   \<and> (\<exists>e. Logger_Info ((built (New Debug ''svc'' []) boot)\<lparr>Level := Debug, dynafields := []\<rparr>)
            [VStr ''m''] boot = boot\<lparr>out := out boot @ [e]\<rparr>
        \<and> e_level e = InfoLevel \<and> e_writer e = Stdout)
   \<and> (\<exists>e. Logger_Warn ((built (New Debug ''svc'' []) boot)\<lparr>Level := Debug, dynafields := []\<rparr>)
            [VStr ''m''] boot = boot\<lparr>out := out boot @ [e]\<rparr>
        \<and> e_level e = InfoLevel \<and> e_writer e = Stdout)"
  using C9_info_constructor [where c = "New Debug ''svc'' []" and ?s0.0 = boot
      and cur = Debug and dyn = "[]" and meta = "[VStr ''m'']" and s = boot]
  by (simp add: level_defs)

section \<open>The global configuration\<close>

lemma unconfigured_inv:
  "\<not> configured (cfg s) \<longrightarrow> stfields (cfg s) = [] \<and> name (cfg s) = [] \<Longrightarrow>
   \<not> configured (cfg (constructs cs s)) \<longrightarrow>
     stfields (cfg (constructs cs s)) = [] \<and> name (cfg (constructs cs s)) = []"
proof (induction cs arbitrary: s)
  case Nil
  then show ?case by simp
next
  case (Cons c cs)
  have "\<not> configured (cfg (snd (construct c s))) \<longrightarrow>
        stfields (cfg (snd (construct c s))) = [] \<and> name (cfg (snd (construct c s))) = []"
    using Cons.prems by (simp add: construct_cfg)
  from Cons.IH [OF this] show ?case by simp
qed

lemma configured_frozen: "configured (cfg s) \<Longrightarrow> cfg (constructs cs s) = cfg s"
proof (induction cs arbitrary: s)
  case Nil
  then show ?case by simp
next
  case (Cons c cs)
  have step: "cfg (snd (construct c s)) = cfg s"
    using Cons.prems by (simp add: construct_cfg)
  with Cons.prems have "configured (cfg (snd (construct c s)))" by simp
  from Cons.IH [OF this] step show ?case by simp
qed

text \<open>
  Claim C6. A construction call with two or more static-field arguments, made while the
  configuration is unconfigured, stores the name, appends the static fields and sets
  \<open>configured\<close>; no sequence \<open>cs\<close> of later construction calls changes the
  configuration again. Once configured, the configuration is the same after every sequence
  of construction calls. A construction call with fewer than two static-field arguments
  changes neither the configuration nor \<open>Default\<close>. In every state reached from \<open>boot\<close>
  by construction calls and still unconfigured, name and static fields are empty, so the
  first qualifying call stores exactly its own arguments.
\<close>

theorem C6_global_config_write_once:
  "(1 < length (c_stfields c) \<and> \<not> configured (cfg s) \<longrightarrow>
      cfg (snd (construct c s)) =
        (cfg s)\<lparr>name := c_name c, stfields := stfields (cfg s) @ c_stfields c,
                 configured := True\<rparr>
      \<and> cfg (constructs cs (snd (construct c s))) = cfg (snd (construct c s)))
   \<and> (configured (cfg s) \<longrightarrow> cfg (constructs cs s) = cfg s)
   \<and> (length (c_stfields c) < 2 \<longrightarrow>
      cfg (snd (construct c s)) = cfg s \<and> Default (snd (construct c s)) = Default s)
   \<and> (\<not> configured (cfg (constructs cs boot)) \<longrightarrow>
      stfields (cfg (constructs cs boot)) = [] \<and> name (cfg (constructs cs boot)) = [])"
proof -
  have first: "1 < length (c_stfields c) \<and> \<not> configured (cfg s) \<longrightarrow>
      cfg (snd (construct c s)) =
        (cfg s)\<lparr>name := c_name c, stfields := stfields (cfg s) @ c_stfields c,
                 configured := True\<rparr>"
    by (simp add: construct_cfg)
  have later: "1 < length (c_stfields c) \<and> \<not> configured (cfg s) \<longrightarrow>
      cfg (constructs cs (snd (construct c s))) = cfg (snd (construct c s))"
  proof
    assume "1 < length (c_stfields c) \<and> \<not> configured (cfg s)"
    then have "configured (cfg (snd (construct c s)))" by (simp add: construct_cfg)
    then show "cfg (constructs cs (snd (construct c s))) = cfg (snd (construct c s))"
      by (rule configured_frozen)
  qed
  have frozen: "configured (cfg s) \<longrightarrow> cfg (constructs cs s) = cfg s"
    by (simp add: configured_frozen)
  have few: "length (c_stfields c) < 2 \<longrightarrow>
      cfg (snd (construct c s)) = cfg s \<and> Default (snd (construct c s)) = Default s"
    by (simp add: construct_cfg construct_Default)
  have reach: "\<not> configured (cfg (constructs cs boot)) \<longrightarrow>
      stfields (cfg (constructs cs boot)) = [] \<and> name (cfg (constructs cs boot)) = []"
    by (rule unconfigured_inv) (simp add: boot_eq)
  from first later frozen few reach show ?thesis by blast
qed

theorem C6_witness:
  "cfg (snd (construct (New Info ''svc'' [VStr ''rev'', VStr ''123'']) boot)) =
     \<lparr>name = ''svc'', level = 0, stfields = [VStr ''rev'', VStr ''123''], configured = True\<rparr>
   \<and> cfg (constructs [NewDev Debug ''other'' [VStr ''env'', VStr ''stage'']]
            (snd (construct (New Info ''svc'' [VStr ''rev'', VStr ''123'']) boot))) =
     \<lparr>name = ''svc'', level = 0, stfields = [VStr ''rev'', VStr ''123''], configured = True\<rparr>
   \<and> configured (cfg (snd (NewLogger Info ''svc'' [VStr ''rev'', VStr ''123''] boot)))
   \<and> cfg (constructs [New Warn ''again'' [VStr ''a'', VStr ''b'']]
            (snd (NewLogger Info ''svc'' [VStr ''rev'', VStr ''123''] boot))) =
       cfg (snd (NewLogger Info ''svc'' [VStr ''rev'', VStr ''123''] boot))
   \<and> cfg (snd (construct (New Info ''svc'' [VStr ''rev'']) boot)) = cfg boot
   \<and> Default (snd (construct (New Info ''svc'' [VStr ''rev'']) boot)) = Default boot
   \<and> \<not> configured (cfg (constructs [New Info ''svc'' [VStr ''rev'']] boot))
   \<and> stfields (cfg (constructs [New Info ''svc'' [VStr ''rev'']] boot)) = []
   \<and> name (cfg (constructs [New Info ''svc'' [VStr ''rev'']] boot)) = []"
  using C6_global_config_write_once [where c = "New Info ''svc'' [VStr ''rev'', VStr ''123'']"
      and s = boot and cs = "[NewDev Debug ''other'' [VStr ''env'', VStr ''stage'']]"]
    C6_global_config_write_once [where c = "New Info ''svc'' [VStr ''rev'']"
      and s = "snd (NewLogger Info ''svc'' [VStr ''rev'', VStr ''123''] boot)"
      and cs = "[New Warn ''again'' [VStr ''a'', VStr ''b'']]"]
    C6_global_config_write_once [where c = "New Info ''svc'' [VStr ''rev'']"
      and s = boot and cs = "[New Info ''svc'' [VStr ''rev'']]"]
  by (simp add: boot_eq construction_defs level_defs Let_def)

text \<open>
  Claim C10. A construction call with two or more static-field arguments, made while the
  configuration is unconfigured, makes \<open>Default\<close> point to the logger it has just
  allocated (the address it returns, unused before the call); any other construction call
  leaves \<open>Default\<close> as it was.
\<close>

theorem C10_Default_replaced:
  "(1 < length (c_stfields c) \<and> \<not> configured (cfg s) \<longrightarrow>
      Default (snd (construct c s)) = Some (fst (construct c s))
      \<and> fst (construct c s) = nxt s
      \<and> heap (snd (construct c s)) (fst (construct c s)) = built c s)
   \<and> (\<not> (1 < length (c_stfields c) \<and> \<not> configured (cfg s)) \<longrightarrow>
      Default (snd (construct c s)) = Default s)"
  by (simp add: construct_Default construct_fst built_def)

theorem C10_witness:
  "Default (snd (construct (NewDev Warn ''svc'' [VStr ''rev'', VStr ''123'']) boot)) = Some 1
   \<and> fst (construct (NewDev Warn ''svc'' [VStr ''rev'', VStr ''123'']) boot) = 1
   \<and> Default boot = Some 0
   \<and> Default (snd (construct (New Warn ''svc'' [VStr ''rev'']) boot)) = Some 0"
  using C10_Default_replaced [where c = "NewDev Warn ''svc'' [VStr ''rev'', VStr ''123'']"
      and s = boot]
    C10_Default_replaced [where c = "New Warn ''svc'' [VStr ''rev'']" and s = boot]
  by (simp add: boot_eq)

section \<open>Field composition\<close>

lemma appendLoop_walk: "appendLoop i flds fs = walk (drop i flds) fs"
proof (induction i flds fs rule: appendLoop.induct)
  case (1 i flds fs)
  show ?case
  proof (cases "int i < int (length flds) - 1")
    case True
    then have len: "Suc i < length flds" by simp
    then have d: "drop i flds = flds ! i # flds ! Suc i # drop (Suc (Suc i)) flds"
      by (simp add: Cons_nth_drop_Suc Suc_lessD)
    show ?thesis
    proof (cases "flds ! i \<noteq> VNil \<and> flds ! (i + 1) \<noteq> VNil")
      case both: True
      have "appendLoop i flds fs =
            appendLoop (i + 2) flds (fs(stringify (flds ! i) \<mapsto> flds ! (i + 1)))"
        using True both by (subst appendLoop.simps) simp
      also have "\<dots> = walk (drop (i + 2) flds) (fs(stringify (flds ! i) \<mapsto> flds ! (i + 1)))"
        by (rule "1.IH"(1) [OF True both])
      also have "\<dots> = walk (drop i flds) fs"
        using both by (simp add: d)
      finally show ?thesis .
    next
      case notboth: False
      have d1: "drop (Suc i) flds = flds ! Suc i # drop (Suc (Suc i)) flds"
        using len by (simp add: Cons_nth_drop_Suc)
      have "appendLoop i flds fs = appendLoop (i + 1) flds fs"
        using True notboth by (subst appendLoop.simps) auto
      also have "\<dots> = walk (drop (i + 1) flds) fs"
        by (rule "1.IH"(2) [OF True notboth])
      also have "\<dots> = walk (drop i flds) fs"
        using notboth by (auto simp add: d d1)
      finally show ?thesis .
    qed
  next
    case False
    then have short: "length flds \<le> Suc i" by simp
    define xs where "xs = drop i flds"
    have "length xs \<le> 1" using short by (simp add: xs_def)
    then have "xs = [] \<or> (\<exists>v. xs = [v])"
      by (cases xs) auto
    then have "walk (drop i flds) fs = fs"
      unfolding xs_def by auto
    with False show ?thesis
      by (subst appendLoop.simps) auto
  qed
qed

text \<open>
  Where the loop agrees with the reference merge: on lists in which no pair has a null key
  and a non-null value. The guards \<^verbatim>\<open>len(...) > 1\<close> on the dynamic and static walks
  change nothing, since the loop does nothing on a shorter list; the guard on the message
  fields is the one that matters.
\<close>

lemma walk_short: "length flds \<le> 1 \<Longrightarrow> walk flds fs = fs"
  by (cases flds rule: pairs_of.cases) simp_all

lemma insert_pairs_short: "length flds \<le> 1 \<Longrightarrow> insert_pairs flds fs = fs"
  by (cases flds rule: pairs_of.cases) (simp_all add: insert_pairs_def)

lemma walk_VNil: "walk (VNil # flds) fs = walk flds fs"
  by (cases flds) simp_all

lemma walk_reference: "keys_ok flds \<Longrightarrow> walk flds fs = insert_pairs flds fs"
proof (induction flds arbitrary: fs rule: pairs_of.induct)
  case (1 k v rest)
  then have rest: "\<And>m. walk rest m = insert_pairs rest m" by simp
  show ?case
  proof (cases "k \<noteq> VNil \<and> v \<noteq> VNil")
    case True
    then show ?thesis
      using rest by (simp add: insert_pairs_def insert_pair_def)
  next
    case False
    with "1.prems" have v: "v = VNil" by (auto split: if_splits)
    have "walk (k # v # rest) fs = walk rest fs"
      using v by (cases rest) simp_all
    moreover have "insert_pairs (k # v # rest) fs = insert_pairs rest fs"
      using v by (simp add: insert_pairs_def insert_pair_def)
    ultimately show ?thesis using rest by simp
  qed
next
  case (2 v)
  show ?case by (simp add: insert_pairs_def)
next
  case 3
  show ?case by (simp add: insert_pairs_def)
qed

lemma appendLoop_guarded:
  "(if 1 < length flds then appendLoop 0 flds fs else fs) = walk flds fs"
  by (simp add: appendLoop_walk walk_short)

lemma compose_reference:
  assumes "1 < length msg" "keys_ok msg" "keys_ok dyn" "keys_ok (stfields (cfg s))"
  shows "map_option e_fields (appendKeyValues (Some e) dyn msg s)
           = Some (reference_merge msg dyn (stfields (cfg s)))"
proof -
  have "map_option e_fields (appendKeyValues (Some e) dyn msg s)
          = Some (walk (stfields (cfg s)) (walk dyn (walk msg Map.empty)))"
    using assms(1) appendLoop_guarded [of dyn] appendLoop_guarded [of "stfields (cfg s)"]
    by (simp add: appendKeyValues_def ev_Str_def ev_Fields_def Let_def appendLoop_walk)
  then show ?thesis
    using assms by (simp add: walk_reference reference_merge_def)
qed

lemma SetDyna_keys_ok: "keys_ok ([VNil, VNil] @ dyn) = keys_ok dyn"
  by simp

lemmas log_defs = Logger_Debug_def Logger_Info_def Logger_Warn_def Logger_Error_def
  debugf_def infof_def warnf_def errorf_def appendKeyValues_def appendLoop_walk
  zl_Info_def zl_Error_def newEvent_def ev_Str_def ev_Fields_def ev_Err_def ev_Msg_def
  stringify_def

lemmas ctx_defs = FromCtx_def InCtx_def CtxLogger_def ctx_Value_def WithValue_def
  loggerCtxKey_def SetDyna_def

lemma static_beats_dynamic_beats_message:
  "map_option (\<lambda>e. e_fields e ''k'')
     (appendKeyValues (Some e) [VNil, VNil, VStr ''k'', VStr ''v1''] [VStr ''k'', VStr ''v3'']
        (s\<lparr>cfg := (cfg s)\<lparr>stfields := [VStr ''k'', VStr ''v2'']\<rparr>\<rparr>))
   = Some (Some (VStr ''v2''))"
  by (simp add: log_defs Let_def)

text \<open>
  Claim C3. The claim has the static and dynamic fields in every emitted record, also when
  the call supplies no message fields. In \<open>appendKeyValues\<close> the dynamic and the static
  walk stand inside the branch \<^verbatim>\<open>len(fields) > 1\<close>. A logger is built with the static
  pair \<open>("rev", "123")\<close> and the name \<open>"svc"\<close>, its dynamic fields are reset, and
  \<^verbatim>\<open>Info("hello")\<close> is called: the one record written has the name and an empty field
  mapping, while the reference merge maps \<open>"rev"\<close> to \<open>"123"\<close>.
\<close>

theorem C3_static_fields_missing:
  "(let s1 = snd (NewLogger Info ''svc'' [VStr ''rev'', VStr ''123''] boot);
        s2 = ResetDyna 1 s1;
        s3 = Logger_Info (heap s2 1) [VStr ''hello''] s2
    in stfields (cfg s2) = [VStr ''rev'', VStr ''123'']
       \<and> dynafields (heap s2 1) = [VNil, VNil]
       \<and> map (\<lambda>e. (e_message e, e_str e, e_fields e ''rev'')) (out s3)
            = [(''hello'', [(''name'', ''svc'')], None)]
       \<and> reference_merge [] (dynafields (heap s2 1)) (stfields (cfg s2)) ''rev''
            = Some (VStr ''123''))"
  by (simp add: boot_eq ResetDyna_def log_defs construction_defs level_defs Let_def
      reference_merge_def insert_pairs_def insert_pair_def)

text \<open>
  Claim C7. The claim drops a pair with a null key or value and goes on with the next
  pair. The loop of \<open>appendKeyValues\<close> advances by one entry, not two, when it does not
  insert. \<^verbatim>\<open>Info("m", nil, "x", "id", 7)\<close> on the default logger, with no dynamic and no
  static fields: the record maps \<open>"x"\<close> to \<open>"id"\<close> and has no key \<open>"id"\<close>, while the
  reference merge has no key \<open>"x"\<close> and maps \<open>"id"\<close> to \<open>7\<close>.
\<close>

theorem C7_null_key_shifts_pairs:
  "map (\<lambda>e. (e_fields e ''x'', e_fields e ''id''))
       (out (Logger_Info (heap boot 0) [VStr ''m'', VNil, VStr ''x'', VStr ''id'', VInt 7] boot))
     = [(Some (VStr ''id''), None)]
   \<and> reference_merge [VNil, VStr ''x'', VStr ''id'', VInt 7] [] [] ''x'' = None
   \<and> reference_merge [VNil, VStr ''x'', VStr ''id'', VInt 7] [] [] ''id'' = Some (VInt 7)"
  by (simp add: boot_eq log_defs construction_defs level_defs Let_def reference_merge_def insert_pairs_def insert_pair_def)

text \<open>
  Claim C8. The claim has \<^verbatim>\<open>AddDyna(k, v)\<close> append the pair to the dynamic fields.
  \<^verbatim>\<open>AddDyna\<close> appends one element, the slice holding key and value. After
  \<^verbatim>\<open>SetDyna("a", "b")\<close> and \<^verbatim>\<open>AddDyna("k", "v")\<close>, the call \<^verbatim>\<open>Info("m", "x", 1)\<close> runs
  the dynamic walk and writes a record with \<open>"x"\<close> and \<open>"a"\<close> and without \<open>"k"\<close>.
\<close>

theorem C8_AddDyna_pair_not_emitted:
  "(let s1 = snd (NewLogger Info ''svc'' [] boot);
        s2 = SetDyna 1 [VStr ''a'', VStr ''b''] s1;
        s3 = AddDyna 1 (VStr ''k'') (VStr ''v'') s2;
        s4 = Logger_Info (heap s3 1) [VStr ''m'', VStr ''x'', VInt 1] s3
    in dynafields (heap s3 1) = [VNil, VNil, VStr ''a'', VStr ''b'', VSlice [VStr ''k'', VStr ''v'']]
       \<and> map (\<lambda>e. (e_fields e ''x'', e_fields e ''a'', e_fields e ''k'')) (out s4)
            = [(Some (VInt 1), Some (VStr ''b''), None)])"
  by (simp add: boot_eq SetDyna_def AddDyna_def log_defs construction_defs level_defs Let_def)

section \<open>Level update: what a caller observes\<close>

text \<open>
  Claim C4. The claim has \<^verbatim>\<open>UpdateLogLevel\<close> apply a level within [-1,3] to the instance
  and to both sinks. The method works on a copy of the logger, sets the copy's level to
  \<^verbatim>\<open>Error\<close>, and overwrites it with the new level only when the new level is outside the
  range of the constants; \<open>setLogLevel\<close> leaves the sinks as they are. On the default
  logger (level 1) with new level 2: the instance keeps level 1 and its sink thresholds,
  the copy ends at level 4, and one info record is written. With new level 9 the copy
  takes level 9, and the instance is again unchanged.
\<close>

theorem C4_update_in_range_is_lost:
  "(case UpdateLogLevel (heap boot 0) 2 boot of
      (l', s') \<Rightarrow>
        Default boot = Some 0 \<and> Level (heap boot 0) = 1
        \<and> heap s' = heap boot \<and> Level (heap s' 0) = 1
        \<and> zminlevel (StdLog (heap s' 0)) = DebugLevel
        \<and> zminlevel (ErrLog (heap s' 0)) = DebugLevel
        \<and> Level l' = 4
        \<and> map e_level (out s') = [InfoLevel])
   \<and> (case UpdateLogLevel (heap boot 0) 9 boot of
      (l', s') \<Rightarrow>
        heap s' = heap boot \<and> Level l' = 9
        \<and> zminlevel (StdLog l') = DebugLevel \<and> zminlevel (ErrLog l') = DebugLevel)"
  by (simp add: boot_eq UpdateLogLevel_def log_defs construction_defs level_defs Let_def)

section \<open>Context binding\<close>

text \<open>
  Claim C1. The claim has \<^verbatim>\<open>FromCtx\<close> find the logger that \<^verbatim>\<open>InCtx\<close> bound, with the
  supplied pairs as its dynamic fields. \<^verbatim>\<open>InCtx\<close> stores a \<^verbatim>\<open>*Logger\<close> and \<^verbatim>\<open>FromCtx\<close>
  asserts a \<^verbatim>\<open>Logger\<close>. Binding \<open>("a", "b")\<close> on the empty context in state \<open>boot\<close>:
  the context holds the pointer 1 (and \<^verbatim>\<open>CtxLogger\<close>, which asserts \<^verbatim>\<open>*Logger\<close>, finds
  it), \<^verbatim>\<open>FromCtx\<close> returns \<^verbatim>\<open>fresh = true\<close> and the new address 2, whose logger has no
  dynamic fields; the dynamic fields of the bound logger are two nils followed by the one
  string slice.
\<close>

theorem C1_lookup_after_bind:
  "(case InCtx [] [''a'', ''b''] boot of
      (c', s1) \<Rightarrow>
        (case FromCtx c' s1 of
           (a, fresh, s2) \<Rightarrow>
             c' = [(loggerCtxKey, LoggerPtr 1)]
             \<and> CtxLogger c' = (Some 1, True)
             \<and> fresh \<and> a = 2 \<and> nxt s1 = 2
             \<and> dynafields (heap s2 a) = []
             \<and> dynafields (heap s2 1) = [VNil, VNil, VStrs [''a'', ''b'']]))"
  by (simp add: boot_eq ctx_defs construction_defs level_defs Let_def)

text \<open>The lookup misses for every context, field list and state.\<close>

lemma FromCtx_after_InCtx_misses:
  "(case InCtx c flds s of
      (c', s1) \<Rightarrow>
        (case FromCtx c' s1 of
           (a, fresh, s2) \<Rightarrow>
             CtxLogger c' = (Some (fst (FromCtx c s)), True)
             \<and> fst (FromCtx c s) = nxt s
             \<and> fresh \<and> a = Suc (nxt s)
             \<and> dynafields (heap s2 a) = []))"
  by (simp add: ctx_defs construction_defs level_defs Let_def split: option.splits cval.splits)

end
